theory Spec2Isabelle
  imports Main "HOL-Library.AList"
begin

section \<open>The order registry of server.js\<close>

text \<open>
  The server keeps four pieces of process-wide state (\<open>sistemaAtivo\<close>, \<open>pedidos\<close>,
  \<open>proximoId\<close>, \<open>timersExpiracao\<close>) and registers one handler per socket event.  Each
  handler is embedded as a function from the state to the list of emitted messages and
  the new state.  Node runs one handler or timer callback to completion before the next,
  so a run of the server is a list of events applied in order.

  Numbers are natural numbers: \<open>proximoId\<close> only grows by one per stored order, and the
  orders stay in memory, so the range where a JavaScript number stops being exact is out
  of reach.  A text is a list of characters, one per code unit.  The clock
  (\<open>new Date().toLocaleTimeString()\<close>) and the socket identifier are inputs of the event.
\<close>

subsection \<open>Data\<close>

datatype status_pedido = Pendente | Preparando | Pronto | Entregue | Cancelado | Expirado

record pedido =
  id_pedido :: nat
  cliente :: string
  itens :: string
  status :: status_pedido
  criadoEm :: string
  socketId :: string
  prontoEm :: "string option"
  canceladoEm :: "string option"
  entregueEm :: "string option"

text \<open>
  The payload of \<open>pedido.criar\<close> is an object whose properties \<open>cliente\<close> and \<open>itens\<close>
  are texts or absent; a property that is absent is \<open>None\<close>.  The payload of the other
  order events is a number, compared with \<open>===\<close> against the stored ids.  The handlers
  of \<open>connection\<close> and \<open>disconnect\<close> write no state and are left out.
\<close>

record dados =
  dados_cliente :: "string option"
  dados_itens :: "string option"

text \<open>
  \<open>timersExpiracao\<close> is the \<open>Map\<close> from order id to timer handle, in insertion order.
  \<open>agendados\<close> and \<open>proximoTimer\<close> stand for the runtime's side of \<open>setTimeout\<close> and
  \<open>clearTimeout\<close>: the timeouts that are still to fire, each a handle with the order id
  its callback closed over, and the next fresh handle.
\<close>

record estado =
  sistemaAtivo :: bool
  pedidos :: "pedido list"
  proximoId :: nat
  timersExpiracao :: "(nat \<times> nat) list"
  agendados :: "(nat \<times> nat) list"
  proximoTimer :: nat

text \<open>The seven texts that \<open>erro.operacao\<close> carries, in the order of the source.\<close>

datatype erro_operacao =
    SistemaNaoAtivo        \<comment> \<open>Sistema nao esta ativo!\<close>
  | DadosInvalidos         \<comment> \<open>Dados invalidos! Cliente e itens sao obrigatorios.\<close>
  | PedidoNaoEncontrado    \<comment> \<open>Pedido nao encontrado!\<close>
  | ApenasPendentes        \<comment> \<open>Apenas pedidos pendentes podem ser aceitos!\<close>
  | ApenasEmPreparo        \<comment> \<open>Apenas pedidos em preparo podem ser finalizados!\<close>
  | NaoPodeSerCancelado    \<comment> \<open>Este pedido nao pode ser cancelado!\<close>
  | ApenasProntos          \<comment> \<open>Apenas pedidos prontos podem ser entregues!\<close>

datatype mensagem =
    SistemaIniciado string
  | SistemaResetado string
  | ErroOperacao erro_operacao
  | PedidoCriado pedido
  | PedidoExpirado pedido
  | PedidoAceito pedido
  | PedidoFinalizado pedido
  | PedidoCancelado pedido
  | PedidoEntregue pedido

text \<open>\<open>socket.emit\<close> reaches the calling connection only, \<open>io.emit\<close> every connection.\<close>

datatype destino = Emissor | Todos

type_synonym saida = "destino \<times> mensagem"

datatype evento =
    SistemaIniciar string
  | PedidoCriar string string dados
  | PedidoAceitar nat
  | PedidoFinalizar string nat
  | PedidoCancelar string nat
  | PedidoEntregar string nat
  | SistemaReset string
  | TimerDispara nat

subsection \<open>Helpers\<close>

text \<open>
  \<open>String.prototype.trim\<close> drops white space and line terminators at both ends; among
  the code units below 256 these are TAB, LF, VT, FF, CR, SP and NBSP.
\<close>

definition espaco :: "char \<Rightarrow> bool" where
  "espaco c = (c \<in> set [CHR 0x09, CHR 0x0A, CHR 0x0B, CHR 0x0C, CHR 0x0D, CHR 0x20, CHR 0xA0])"

definition trim :: "string \<Rightarrow> string" where
  "trim t = rev (dropWhile espaco (rev (dropWhile espaco t)))"

text \<open>\<open>!v\<close> for a value that is a text or absent: true for undefined and the empty text.\<close>

definition falsy :: "string option \<Rightarrow> bool" where
  "falsy v = (case v of None \<Rightarrow> True | Some t \<Rightarrow> t = [])"

text \<open>\<open>pedidos.find(p => p.id === k)\<close>: the first order with that id, if any.\<close>

definition buscar :: "nat \<Rightarrow> pedido list \<Rightarrow> pedido option" where
  "buscar k ps = find (\<lambda>p. id_pedido p = k) ps"

text \<open>Assigning to fields of the object that \<open>find\<close> returned changes it in the list.\<close>

fun atualizar :: "nat \<Rightarrow> (pedido \<Rightarrow> pedido) \<Rightarrow> pedido list \<Rightarrow> pedido list" where
  "atualizar k f [] = []"
| "atualizar k f (p # ps) = (if id_pedido p = k then f p # ps else p # atualizar k f ps)"

definition clearTimeout :: "nat \<Rightarrow> (nat \<times> nat) list \<Rightarrow> (nat \<times> nat) list" where
  "clearTimeout h ag = filter (\<lambda>(h', k). h' \<noteq> h) ag"

definition limparTimer :: "nat \<Rightarrow> estado \<Rightarrow> estado" where
  "limparTimer k s =
     (case map_of (timersExpiracao s) k of
        None \<Rightarrow> s
      | Some h \<Rightarrow> s\<lparr>timersExpiracao := AList.delete k (timersExpiracao s),
                    agendados := clearTimeout h (agendados s)\<rparr>)"

subsection \<open>Event handlers\<close>

definition sistema_iniciar :: "string \<Rightarrow> estado \<Rightarrow> saida list \<times> estado" where
  "sistema_iniciar agora s = ([(Todos, SistemaIniciado agora)], s\<lparr>sistemaAtivo := True\<rparr>)"

definition novoPedido :: "string \<Rightarrow> string \<Rightarrow> string \<Rightarrow> string \<Rightarrow> nat \<Rightarrow> pedido" where
  "novoPedido sock agora c i n =
     \<lparr>id_pedido = n, cliente = trim c, itens = trim i, status = Pendente,
      criadoEm = agora, socketId = sock,
      prontoEm = None, canceladoEm = None, entregueEm = None\<rparr>"

definition pedido_criar :: "string \<Rightarrow> string \<Rightarrow> dados \<Rightarrow> estado \<Rightarrow> saida list \<times> estado" where
  "pedido_criar sock agora d s =
     (if \<not> sistemaAtivo s then ([(Emissor, ErroOperacao SistemaNaoAtivo)], s)
      else if falsy (dados_cliente d) \<or> falsy (dados_itens d)
        then ([(Emissor, ErroOperacao DadosInvalidos)], s)
      else
        (case (dados_cliente d, dados_itens d) of
           (Some c, Some i) \<Rightarrow>
             let p = novoPedido sock agora c i (proximoId s)
             in ([(Todos, PedidoCriado p)],
                 s\<lparr>proximoId := proximoId s + 1,
                   pedidos := pedidos s @ [p],
                   agendados := agendados s @ [(proximoTimer s, id_pedido p)],
                   proximoTimer := proximoTimer s + 1,
                   timersExpiracao :=
                     AList.update (id_pedido p) (proximoTimer s) (timersExpiracao s)\<rparr>)
         | _ \<Rightarrow> ([(Emissor, ErroOperacao DadosInvalidos)], s)))"

text \<open>The body of the callback given to \<open>setTimeout\<close>, for the order id it closed over.\<close>

definition expirar :: "nat \<Rightarrow> estado \<Rightarrow> saida list \<times> estado" where
  "expirar k s =
     (case buscar k (pedidos s) of
        None \<Rightarrow> ([], s)
      | Some p \<Rightarrow>
          if status p = Pendente
          then ([(Todos, PedidoExpirado (p\<lparr>status := Expirado\<rparr>))],
                s\<lparr>pedidos := atualizar k (\<lambda>q. q\<lparr>status := Expirado\<rparr>) (pedidos s),
                  timersExpiracao := AList.delete k (timersExpiracao s)\<rparr>)
          else ([], s))"

text \<open>
  The runtime fires the timeout with handle \<open>h\<close>: a timeout fires once, so it leaves the
  runtime's list, and its callback runs.  A handle that is not waiting does nothing.
\<close>

definition disparar :: "nat \<Rightarrow> estado \<Rightarrow> saida list \<times> estado" where
  "disparar h s =
     (case find (\<lambda>(h', k). h' = h) (agendados s) of
        None \<Rightarrow> ([], s)
      | Some (h', k) \<Rightarrow> expirar k (s\<lparr>agendados := clearTimeout h (agendados s)\<rparr>))"

definition pedido_aceitar :: "nat \<Rightarrow> estado \<Rightarrow> saida list \<times> estado" where
  "pedido_aceitar k s =
     (case buscar k (pedidos s) of
        None \<Rightarrow> ([(Emissor, ErroOperacao PedidoNaoEncontrado)], s)
      | Some p \<Rightarrow>
          if status p \<noteq> Pendente then ([(Emissor, ErroOperacao ApenasPendentes)], s)
          else ([(Todos, PedidoAceito (p\<lparr>status := Preparando\<rparr>))],
                limparTimer k
                  (s\<lparr>pedidos := atualizar k (\<lambda>q. q\<lparr>status := Preparando\<rparr>) (pedidos s)\<rparr>)))"

definition pedido_finalizar :: "string \<Rightarrow> nat \<Rightarrow> estado \<Rightarrow> saida list \<times> estado" where
  "pedido_finalizar agora k s =
     (case buscar k (pedidos s) of
        None \<Rightarrow> ([(Emissor, ErroOperacao PedidoNaoEncontrado)], s)
      | Some p \<Rightarrow>
          if status p \<noteq> Preparando then ([(Emissor, ErroOperacao ApenasEmPreparo)], s)
          else ([(Todos, PedidoFinalizado (p\<lparr>status := Pronto, prontoEm := Some agora\<rparr>))],
                s\<lparr>pedidos :=
                    atualizar k (\<lambda>q. q\<lparr>status := Pronto, prontoEm := Some agora\<rparr>) (pedidos s)\<rparr>))"

definition pedido_cancelar :: "string \<Rightarrow> nat \<Rightarrow> estado \<Rightarrow> saida list \<times> estado" where
  "pedido_cancelar agora k s =
     (case buscar k (pedidos s) of
        None \<Rightarrow> ([(Emissor, ErroOperacao PedidoNaoEncontrado)], s)
      | Some p \<Rightarrow>
          if status p = Entregue \<or> status p = Cancelado
          then ([(Emissor, ErroOperacao NaoPodeSerCancelado)], s)
          else ([(Todos, PedidoCancelado (p\<lparr>status := Cancelado, canceladoEm := Some agora\<rparr>))],
                limparTimer k
                  (s\<lparr>pedidos :=
                      atualizar k (\<lambda>q. q\<lparr>status := Cancelado, canceladoEm := Some agora\<rparr>)
                        (pedidos s)\<rparr>)))"

definition pedido_entregar :: "string \<Rightarrow> nat \<Rightarrow> estado \<Rightarrow> saida list \<times> estado" where
  "pedido_entregar agora k s =
     (case buscar k (pedidos s) of
        None \<Rightarrow> ([(Emissor, ErroOperacao PedidoNaoEncontrado)], s)
      | Some p \<Rightarrow>
          if status p \<noteq> Pronto then ([(Emissor, ErroOperacao ApenasProntos)], s)
          else ([(Todos, PedidoEntregue (p\<lparr>status := Entregue, entregueEm := Some agora\<rparr>))],
                s\<lparr>pedidos :=
                    atualizar k (\<lambda>q. q\<lparr>status := Entregue, entregueEm := Some agora\<rparr>)
                      (pedidos s)\<rparr>))"

text \<open>
  \<open>sistema.reset\<close> calls \<open>clearTimeout\<close> on every handle stored in the map, empties the
  map, and restarts the list and the counter.
\<close>

definition sistema_reset :: "string \<Rightarrow> estado \<Rightarrow> saida list \<times> estado" where
  "sistema_reset agora s =
     ([(Todos, SistemaResetado agora)],
      s\<lparr>agendados := fold clearTimeout (map snd (timersExpiracao s)) (agendados s),
        timersExpiracao := [],
        pedidos := [],
        proximoId := 1\<rparr>)"

subsection \<open>Runs\<close>

fun passo :: "evento \<Rightarrow> estado \<Rightarrow> saida list \<times> estado" where
  "passo (SistemaIniciar agora) s = sistema_iniciar agora s"
| "passo (PedidoCriar sock agora d) s = pedido_criar sock agora d s"
| "passo (PedidoAceitar k) s = pedido_aceitar k s"
| "passo (PedidoFinalizar agora k) s = pedido_finalizar agora k s"
| "passo (PedidoCancelar agora k) s = pedido_cancelar agora k s"
| "passo (PedidoEntregar agora k) s = pedido_entregar agora k s"
| "passo (SistemaReset agora) s = sistema_reset agora s"
| "passo (TimerDispara h) s = disparar h s"

fun executar :: "evento list \<Rightarrow> estado \<Rightarrow> saida list \<times> estado" where
  "executar [] s = ([], s)"
| "executar (e # es) s =
     (case passo e s of (o1, s1) \<Rightarrow> (case executar es s1 of (o2, s2) \<Rightarrow> (o1 @ o2, s2)))"

definition inicial :: estado where
  "inicial = \<lparr>sistemaAtivo = False, pedidos = [], proximoId = 1,
              timersExpiracao = [], agendados = [], proximoTimer = 0\<rparr>"

inductive alcancavel :: "estado \<Rightarrow> bool" where
  inicio: "alcancavel inicial"
| avanco: "alcancavel s \<Longrightarrow> alcancavel (snd (passo e s))"

subsection \<open>The specification's vocabulary\<close>

text \<open>The four error classes of the specification, and the class of each error text.\<close>

datatype classe_erro = SystemInactive | InvalidInput | OrderNotFound | InvalidTransition

fun classe :: "erro_operacao \<Rightarrow> classe_erro" where
  "classe SistemaNaoAtivo = SystemInactive"
| "classe DadosInvalidos = InvalidInput"
| "classe PedidoNaoEncontrado = OrderNotFound"
| "classe ApenasPendentes = InvalidTransition"
| "classe ApenasEmPreparo = InvalidTransition"
| "classe NaoPodeSerCancelado = InvalidTransition"
| "classe ApenasProntos = InvalidTransition"

text \<open>
  The actions of the state machine, the table of section 4 of the specification as it is
  printed there, and the edges that the handlers of the source implement.
\<close>

datatype acao = Aceitar | Finalizar | Cancelar | Entregar | Timer

definition tabela_secao4 :: "(status_pedido \<times> acao \<times> status_pedido) list" where
  "tabela_secao4 =
     [(Pendente, Aceitar, Preparando),
      (Pendente, Timer, Expirado),
      (Pendente, Cancelar, Cancelado),
      (Preparando, Finalizar, Pronto),
      (Preparando, Cancelar, Cancelado),
      (Pronto, Entregar, Entregue),
      (Pronto, Cancelar, Cancelado)]"

definition arestas_codigo :: "(status_pedido \<times> acao \<times> status_pedido) list" where
  "arestas_codigo = tabela_secao4 @ [(Expirado, Cancelar, Cancelado)]"

fun acao_de :: "evento \<Rightarrow> acao option" where
  "acao_de (PedidoAceitar k) = Some Aceitar"
| "acao_de (PedidoFinalizar agora k) = Some Finalizar"
| "acao_de (PedidoCancelar agora k) = Some Cancelar"
| "acao_de (PedidoEntregar agora k) = Some Entregar"
| "acao_de (TimerDispara h) = Some Timer"
| "acao_de (SistemaIniciar agora) = None"
| "acao_de (PedidoCriar sock agora d) = None"
| "acao_de (SistemaReset agora) = None"

definition muda_por ::
  "(status_pedido \<times> acao \<times> status_pedido) list \<Rightarrow> evento \<Rightarrow> status_pedido \<Rightarrow> status_pedido \<Rightarrow> bool" where
  "muda_por tab e a b =
     (a = b \<or> (case acao_de e of None \<Rightarrow> False | Some ac \<Rightarrow> (a, ac, b) \<in> set tab))"

subsection \<open>Invariants of the reachable states\<close>

text \<open>
  \<open>ids_ok\<close>: the stored ids increase along the list, are positive and lie below the
  counter.  \<open>timers_ok\<close>: every waiting timeout is the one the map records for its order,
  and that order is stored and pending; every entry of the map is a waiting timeout; no
  handle waits twice.
\<close>

definition ids_ok :: "estado \<Rightarrow> bool" where
  "ids_ok s \<longleftrightarrow>
     sorted_wrt (<) (map id_pedido (pedidos s)) \<and>
     (\<forall>n \<in> set (map id_pedido (pedidos s)). 1 \<le> n \<and> n < proximoId s) \<and>
     1 \<le> proximoId s"

definition timers_ok :: "estado \<Rightarrow> bool" where
  "timers_ok s \<longleftrightarrow>
     (\<forall>(h, k) \<in> set (agendados s).
        map_of (timersExpiracao s) k = Some h \<and> h < proximoTimer s \<and>
        (\<exists>p. buscar k (pedidos s) = Some p \<and> status p = Pendente)) \<and>
     (\<forall>(k, h) \<in> set (timersExpiracao s). (h, k) \<in> set (agendados s)) \<and>
     distinct (map fst (agendados s))"

subsection \<open>Observations\<close>

text \<open>The fields of an order that are written when it is created.\<close>

definition nucleo :: "pedido \<Rightarrow> nat \<times> string \<times> string \<times> string \<times> string" where
  "nucleo p = (id_pedido p, cliente p, itens p, criadoEm p, socketId p)"

text \<open>
  The ids of the orders announced by \<open>pedido.criado\<close> and by \<open>pedido.expirado\<close> in a list
  of emitted messages, in the order of emission, and the test for a reset event.
\<close>

fun e_reset :: "evento \<Rightarrow> bool" where
  "e_reset (SistemaReset agora) = True"
| "e_reset e = False"

definition criado :: "saida \<Rightarrow> nat list" where
  "criado x = (case snd x of PedidoCriado p \<Rightarrow> [id_pedido p] | _ \<Rightarrow> [])"

definition ids_criados :: "saida list \<Rightarrow> nat list" where
  "ids_criados outs = concat (map criado outs)"

definition expirado :: "saida \<Rightarrow> nat list" where
  "expirado x = (case snd x of PedidoExpirado p \<Rightarrow> [id_pedido p] | _ \<Rightarrow> [])"

definition ids_expirados :: "saida list \<Rightarrow> nat list" where
  "ids_expirados outs = concat (map expirado outs)"

subsection \<open>Sample runs\<close>

definition dados_ana :: dados where
  "dados_ana = \<lparr>dados_cliente = Some ''Ana'', dados_itens = Some ''Pizza''\<rparr>"

definition cenario_expirado :: estado where
  "cenario_expirado =
     snd (executar [SistemaIniciar ''10:00:00'', PedidoCriar ''sock1'' ''10:00:01'' dados_ana,
                    TimerDispara 0] inicial)"

definition cenario_pendente :: estado where
  "cenario_pendente =
     snd (executar [SistemaIniciar ''10:00:00'', PedidoCriar ''sock1'' ''10:00:01'' dados_ana] inicial)"

definition dados_em_branco :: dados where
  "dados_em_branco = \<lparr>dados_cliente = Some ''   '', dados_itens = Some ''Pizza''\<rparr>"

definition cenario_ativo :: estado where
  "cenario_ativo = snd (executar [SistemaIniciar ''10:00:00''] inicial)"

definition dados_bia :: dados where
  "dados_bia = \<lparr>dados_cliente = Some '' Bia '', dados_itens = Some ''Suco''\<rparr>"

definition cenario_aceito :: estado where
  "cenario_aceito =
     snd (executar [SistemaIniciar ''10:00:00'', PedidoCriar ''sock1'' ''10:00:01'' dados_ana,
                    PedidoAceitar 1] inicial)"

definition cenario_pronto :: estado where
  "cenario_pronto =
     snd (executar [SistemaIniciar ''10:00:00'', PedidoCriar ''sock1'' ''10:00:01'' dados_ana,
                    PedidoAceitar 1, PedidoFinalizar ''10:00:20'' 1] inicial)"

definition cenario_dois :: estado where
  "cenario_dois =
     snd (executar [SistemaIniciar ''10:00:00'', PedidoCriar ''sock1'' ''10:00:01'' dados_ana,
                    PedidoCriar ''sock2'' ''10:00:02'' dados_bia] inicial)"

definition eventos_com_reset :: "evento list" where
  "eventos_com_reset =
     [SistemaIniciar ''10:00:00'', PedidoCriar ''sock1'' ''10:00:01'' dados_ana,
      SistemaReset ''10:00:02'', PedidoCriar ''sock2'' ''10:00:03'' dados_bia]"

definition eventos_sem_reset :: "evento list" where
  "eventos_sem_reset =
     [PedidoCriar ''sock1'' ''10:00:01'' dados_ana, PedidoAceitar 1,
      PedidoCriar ''sock2'' ''10:00:03'' dados_bia]"

definition eventos_apos_aceite :: "evento list" where
  "eventos_apos_aceite = [TimerDispara 0, PedidoFinalizar ''10:00:40'' 1]"

section \<open>Properties\<close>

subsection \<open>Lookup and update of the order list\<close>

lemma length_atualizar [simp]: "length (atualizar k f ps) = length ps"
  by (induction ps) auto

lemma atualizar_nth:
  "buscar k ps = Some p \<Longrightarrow> i < length ps \<Longrightarrow>
     atualizar k f ps ! i = ps ! i \<or> (ps ! i = p \<and> atualizar k f ps ! i = f p)"
proof (induction ps arbitrary: i)
  case Nil
  then show ?case by simp
next
  case (Cons q qs)
  then show ?case
    by (cases i) (auto simp: buscar_def split: if_splits)
qed

lemma map_atualizar: "(\<And>q. g (f q) = g q) \<Longrightarrow> map g (atualizar k f ps) = map g ps"
  by (induction ps) auto

lemma buscar_id: "buscar k ps = Some p \<Longrightarrow> id_pedido p = k"
  unfolding buscar_def by (induction ps) (auto split: if_splits)

lemma buscar_atualizar_mesmo:
  "buscar k ps = Some p \<Longrightarrow> id_pedido (f p) = k \<Longrightarrow> buscar k (atualizar k f ps) = Some (f p)"
  unfolding buscar_def by (induction ps) (auto split: if_splits)

lemma buscar_atualizar_outro:
  "j \<noteq> k \<Longrightarrow> (\<And>q. id_pedido (f q) = id_pedido q) \<Longrightarrow> buscar j (atualizar k f ps) = buscar j ps"
  unfolding buscar_def by (induction ps) (auto split: if_splits)

lemma pedidos_limparTimer [simp]: "pedidos (limparTimer k s) = pedidos s"
  by (simp add: limparTimer_def split: option.splits)

lemma ativo_limparTimer [simp]: "sistemaAtivo (limparTimer k s) = sistemaAtivo s"
  by (simp add: limparTimer_def split: option.splits)

lemma proximoId_limparTimer [simp]: "proximoId (limparTimer k s) = proximoId s"
  by (simp add: limparTimer_def split: option.splits)

lemma buscar_append_achado: "buscar k ps = Some p \<Longrightarrow> buscar k (ps @ qs) = Some p"
  unfolding buscar_def by (induction ps) (auto split: if_splits)

lemma buscar_append_novo:
  "\<forall>n \<in> set (map id_pedido ps). n \<noteq> k \<Longrightarrow> id_pedido q = k \<Longrightarrow> buscar k (ps @ [q]) = Some q"
  unfolding buscar_def by (induction ps) auto

subsection \<open>The ids invariant\<close>

lemma ids_ok_frame:
  "ids_ok s \<Longrightarrow> map id_pedido (pedidos s') = map id_pedido (pedidos s) \<Longrightarrow>
   proximoId s' = proximoId s \<Longrightarrow> ids_ok s'"
  by (simp add: ids_ok_def)

lemma ids_ok_inicial: "ids_ok inicial"
  by (simp add: ids_ok_def inicial_def)

lemma ids_ok_criar: "ids_ok s \<Longrightarrow> ids_ok (snd (pedido_criar sock agora d s))"
  by (auto simp: ids_ok_def pedido_criar_def novoPedido_def Let_def sorted_wrt_append
           split: option.splits)

lemma ids_ok_reset: "ids_ok (snd (sistema_reset agora s))"
  by (simp add: ids_ok_def sistema_reset_def)

lemma ids_ok_passo: "ids_ok s \<Longrightarrow> ids_ok (snd (passo e s))"
proof (cases e)
  case (PedidoCriar sock agora d)
  assume "ids_ok s" then show ?thesis using PedidoCriar by (simp add: ids_ok_criar)
next
  case (SistemaReset agora)
  then show ?thesis by (simp add: ids_ok_reset)
next
  case (SistemaIniciar agora)
  assume "ids_ok s" then show ?thesis using SistemaIniciar
    by (auto elim!: ids_ok_frame simp: sistema_iniciar_def)
next
  case (PedidoAceitar k)
  assume "ids_ok s" then show ?thesis using PedidoAceitar
    by (auto elim!: ids_ok_frame simp: pedido_aceitar_def map_atualizar split: option.splits)
next
  case (PedidoFinalizar agora k)
  assume "ids_ok s" then show ?thesis using PedidoFinalizar
    by (auto elim!: ids_ok_frame simp: pedido_finalizar_def map_atualizar split: option.splits)
next
  case (PedidoCancelar agora k)
  assume "ids_ok s" then show ?thesis using PedidoCancelar
    by (auto elim!: ids_ok_frame simp: pedido_cancelar_def map_atualizar split: option.splits)
next
  case (PedidoEntregar agora k)
  assume "ids_ok s" then show ?thesis using PedidoEntregar
    by (auto elim!: ids_ok_frame simp: pedido_entregar_def map_atualizar split: option.splits)
next
  case (TimerDispara h)
  assume "ids_ok s" then show ?thesis using TimerDispara
    by (auto elim!: ids_ok_frame simp: disparar_def expirar_def map_atualizar split: option.splits)
qed

subsection \<open>The timer invariant\<close>

lemma fold_clearTimeout:
  "fold clearTimeout hs ag = filter (\<lambda>(h, k). h \<notin> set hs) ag"
proof (induction hs arbitrary: ag)
  case Nil
  then show ?case by simp
next
  case (Cons h hs)
  then show ?case by (auto simp: clearTimeout_def intro!: filter_cong)
qed

lemma set_update_cases:
  "(k, h) \<in> set (AList.update n v m) \<Longrightarrow> (k, h) = (n, v) \<or> (k, h) \<in> set m"
  by (induction m) (auto split: if_splits)

lemma timers_ok_inicial: "timers_ok inicial"
  by (simp add: timers_ok_def inicial_def)

lemma timers_ok_reset:
  assumes "timers_ok s"
  shows "agendados (snd (sistema_reset agora s)) = []"
proof -
  have "\<And>h k. (h, k) \<in> set (agendados s) \<Longrightarrow> h \<in> set (map snd (timersExpiracao s))"
  proof -
    fix h k assume "(h, k) \<in> set (agendados s)"
    with assms have "map_of (timersExpiracao s) k = Some h" by (auto simp: timers_ok_def)
    then have "(k, h) \<in> set (timersExpiracao s)" by (rule map_of_SomeD)
    then show "h \<in> set (map snd (timersExpiracao s))" by force
  qed
  then show ?thesis
    by (auto simp: sistema_reset_def fold_clearTimeout filter_empty_conv)
qed

lemma timers_ok_reset': "timers_ok s \<Longrightarrow> timers_ok (snd (sistema_reset agora s))"
  using timers_ok_reset [of s agora] by (simp add: timers_ok_def) (simp add: sistema_reset_def)

lemma timers_ok_criar:
  assumes "timers_ok s" "ids_ok s"
  shows "timers_ok (snd (pedido_criar sock agora d s))"
proof (cases "sistemaAtivo s \<and> \<not> falsy (dados_cliente d) \<and> \<not> falsy (dados_itens d)")
  case False
  then show ?thesis using assms by (auto simp: pedido_criar_def)
next
  case True
  then obtain c i where ci: "dados_cliente d = Some c" "dados_itens d = Some i"
    by (auto simp: falsy_def split: option.splits)
  let ?n = "proximoId s" and ?h = "proximoTimer s"
  let ?p = "novoPedido sock agora c i ?n"
  have s': "snd (pedido_criar sock agora d s) =
      s\<lparr>proximoId := ?n + 1, pedidos := pedidos s @ [?p],
        agendados := agendados s @ [(?h, ?n)], proximoTimer := ?h + 1,
        timersExpiracao := AList.update ?n ?h (timersExpiracao s)\<rparr>"
    using True ci by (simp add: pedido_criar_def Let_def novoPedido_def)
  have fresh: "\<forall>n \<in> set (map id_pedido (pedidos s)). n \<noteq> ?n"
    using assms(2) by (auto simp: ids_ok_def)
  have old: "k \<noteq> ?n" if "buscar k (pedidos s) = Some p" for k p
    using that fresh buscar_id [OF that] by (auto simp: buscar_def dest!: find_Some_iff [THEN iffD1])
  have a: "\<forall>(h, k) \<in> set (agendados s @ [(?h, ?n)]).
        map_of (AList.update ?n ?h (timersExpiracao s)) k = Some h \<and> h < ?h + 1 \<and>
        (\<exists>p. buscar k (pedidos s @ [?p]) = Some p \<and> status p = Pendente)"
  proof -
    have new: "map_of (AList.update ?n ?h (timersExpiracao s)) ?n = Some ?h"
      by (simp add: update_conv')
    have newp: "\<exists>p. buscar ?n (pedidos s @ [?p]) = Some p \<and> status p = Pendente"
      using buscar_append_novo [OF fresh, of ?p] by (simp add: novoPedido_def)
    have oldt: "map_of (AList.update ?n ?h (timersExpiracao s)) k = Some h \<and> h < ?h + 1 \<and>
        (\<exists>p. buscar k (pedidos s @ [?p]) = Some p \<and> status p = Pendente)"
      if hk: "(h, k) \<in> set (agendados s)" for h k
    proof -
      from hk assms(1) obtain p where p: "map_of (timersExpiracao s) k = Some h" "h < ?h"
        "buscar k (pedidos s) = Some p" "status p = Pendente"
        by (auto simp: timers_ok_def)
      show ?thesis
        using p old [OF p(3)] buscar_append_achado [OF p(3)] by (auto simp: update_conv')
    qed
    show ?thesis using new newp oldt by auto
  qed
  have b: "\<forall>(k, h) \<in> set (AList.update ?n ?h (timersExpiracao s)). (h, k) \<in> set (agendados s @ [(?h, ?n)])"
    using assms(1) by (auto simp: timers_ok_def dest!: set_update_cases)
  have c: "distinct (map fst (agendados s @ [(?h, ?n)]))"
    using assms(1) by (fastforce simp: timers_ok_def)
  show ?thesis unfolding s' using a b c by (simp add: timers_ok_def)
qed

lemma timers_ok_ficar:
  assumes ok: "timers_ok s" and p: "buscar k (pedidos s) = Some p" "status p \<noteq> Pendente"
    and f: "\<And>q. id_pedido (f q) = id_pedido q"
  shows "timers_ok (s\<lparr>pedidos := atualizar k f (pedidos s)\<rparr>)"
proof -
  have "\<exists>q. buscar j (atualizar k f (pedidos s)) = Some q \<and> status q = Pendente"
    if "(h, j) \<in> set (agendados s)" for h j
  proof -
    from that ok obtain q where q: "buscar j (pedidos s) = Some q" "status q = Pendente"
      by (auto simp: timers_ok_def)
    with p have "j \<noteq> k" by auto
    then show ?thesis using q f by (simp add: buscar_atualizar_outro)
  qed
  then show ?thesis using ok by (auto simp: timers_ok_def)
qed

lemma timers_ok_sair:
  assumes ok: "timers_ok s" and f: "\<And>q. id_pedido (f q) = id_pedido q"
  shows "timers_ok (limparTimer k (s\<lparr>pedidos := atualizar k f (pedidos s)\<rparr>))"
proof (cases "map_of (timersExpiracao s) k")
  case None
  have "\<exists>q. buscar j (atualizar k f (pedidos s)) = Some q \<and> status q = Pendente"
    if "(h, j) \<in> set (agendados s)" for h j
  proof -
    from that ok obtain q where q: "map_of (timersExpiracao s) j = Some h"
      "buscar j (pedidos s) = Some q" "status q = Pendente"
      by (auto simp: timers_ok_def)
    with None have "j \<noteq> k" by auto
    then show ?thesis using q f by (simp add: buscar_atualizar_outro)
  qed
  then show ?thesis using ok None by (auto simp: timers_ok_def limparTimer_def)
next
  case (Some h)
  then have "(k, h) \<in> set (timersExpiracao s)" by (rule map_of_SomeD)
  with ok have hk: "(h, k) \<in> set (agendados s)" by (auto simp: timers_ok_def)
  from ok have dist: "distinct (map fst (agendados s))" by (simp add: timers_ok_def)
  have a: "map_of (AList.delete k (timersExpiracao s)) j = Some h' \<and> h' < proximoTimer s \<and>
      (\<exists>q. buscar j (atualizar k f (pedidos s)) = Some q \<and> status q = Pendente)"
    if "(h', j) \<in> set (agendados s)" "h' \<noteq> h" for h' j
  proof -
    from that ok obtain q where q: "map_of (timersExpiracao s) j = Some h'" "h' < proximoTimer s"
      "buscar j (pedidos s) = Some q" "status q = Pendente"
      by (auto simp: timers_ok_def)
    with Some that have "j \<noteq> k" by auto
    then show ?thesis using q f by (simp add: buscar_atualizar_outro delete_conv')
  qed
  have b: "(h', j) \<in> set (agendados s) \<and> h' \<noteq> h"
    if "(j, h') \<in> set (AList.delete k (timersExpiracao s))" for h' j
  proof -
    from that have j: "j \<noteq> k" "(j, h') \<in> set (timersExpiracao s)"
      by (auto simp: AList.delete_eq)
    with ok have in_ag: "(h', j) \<in> set (agendados s)" by (auto simp: timers_ok_def)
    have "h' \<noteq> h"
    proof
      assume "h' = h"
      with in_ag hk dist have "j = k" by (auto dest: eq_key_imp_eq_value)
      with j show False by simp
    qed
    with in_ag show ?thesis by simp
  qed
  have c: "distinct (map fst (clearTimeout h (agendados s)))"
    using dist by (simp add: clearTimeout_def distinct_map_filter)
  show ?thesis using Some a b c
    by (auto simp: timers_ok_def limparTimer_def clearTimeout_def)
qed

lemma disparar_limpar:
  assumes ok: "timers_ok s" and ach: "find (\<lambda>(h', k). h' = h) (agendados s) = Some (h', k)"
  shows "\<exists>p. buscar k (pedidos s) = Some p \<and> status p = Pendente \<and>
           disparar h s =
             ([(Todos, PedidoExpirado (p\<lparr>status := Expirado\<rparr>))],
              limparTimer k (s\<lparr>pedidos := atualizar k (\<lambda>q. q\<lparr>status := Expirado\<rparr>) (pedidos s)\<rparr>))"
proof -
  from ach have hk: "h' = h" "(h, k) \<in> set (agendados s)"
    by (auto simp: find_Some_iff in_set_conv_nth)
  with ok obtain p where p: "map_of (timersExpiracao s) k = Some h"
    "buscar k (pedidos s) = Some p" "status p = Pendente"
    by (auto simp: timers_ok_def)
  then show ?thesis using ach hk
    by (simp add: disparar_def expirar_def limparTimer_def)
qed

lemma timers_ok_disparar: "timers_ok s \<Longrightarrow> timers_ok (snd (disparar h s))"
proof (cases "find (\<lambda>(h', k). h' = h) (agendados s)")
  case None
  assume "timers_ok s" then show ?thesis using None by (simp add: disparar_def)
next
  case (Some hk)
  assume ok: "timers_ok s"
  obtain h' k where "hk = (h', k)" by (cases hk)
  with Some disparar_limpar [OF ok, of h h' k]
    timers_ok_sair [OF ok, of "\<lambda>q. q\<lparr>status := Expirado\<rparr>" k]
  show ?thesis by auto
qed

lemma timers_ok_passo: "timers_ok s \<Longrightarrow> ids_ok s \<Longrightarrow> timers_ok (snd (passo e s))"
proof (cases e)
  case (PedidoCriar sock agora d)
  assume "timers_ok s" "ids_ok s" then show ?thesis using PedidoCriar
    by (simp add: timers_ok_criar)
next
  case (SistemaReset agora)
  assume "timers_ok s" then show ?thesis using SistemaReset by (simp add: timers_ok_reset')
next
  case (SistemaIniciar agora)
  assume "timers_ok s" then show ?thesis using SistemaIniciar
    by (simp add: sistema_iniciar_def timers_ok_def)
next
  case (PedidoAceitar k)
  assume "timers_ok s" then show ?thesis using PedidoAceitar
    by (auto simp: pedido_aceitar_def intro: timers_ok_sair split: option.splits)
next
  case (PedidoFinalizar agora k)
  assume "timers_ok s" then show ?thesis using PedidoFinalizar
    by (auto simp: pedido_finalizar_def intro: timers_ok_ficar split: option.splits)
next
  case (PedidoCancelar agora k)
  assume "timers_ok s" then show ?thesis using PedidoCancelar
    by (auto simp: pedido_cancelar_def intro: timers_ok_sair split: option.splits)
next
  case (PedidoEntregar agora k)
  assume "timers_ok s" then show ?thesis using PedidoEntregar
    by (auto simp: pedido_entregar_def intro: timers_ok_ficar split: option.splits)
next
  case (TimerDispara h)
  assume "timers_ok s" then show ?thesis using TimerDispara by (simp add: timers_ok_disparar)
qed

lemma alcancavel_inv: "alcancavel s \<Longrightarrow> ids_ok s \<and> timers_ok s"
proof (induction rule: alcancavel.induct)
  case inicio
  show ?case by (simp add: ids_ok_inicial timers_ok_inicial)
next
  case (avanco s e)
  then show ?case by (simp add: ids_ok_passo timers_ok_passo)
qed

subsection \<open>Status transitions\<close>

text \<open>
  C1 (amended).  One step of the server changes the status of a stored order only along an
  edge of the table of section 4 taken by the action of that table, or from expired to
  canceled by a cancel; creating an order, starting and resetting change no status of an
  order that is stored before and after the step.
\<close>

theorem status_segue_arestas:
  assumes "i < length (pedidos s)" "i < length (pedidos (snd (passo e s)))"
  shows "muda_por arestas_codigo e (status (pedidos s ! i)) (status (pedidos (snd (passo e s)) ! i))"
proof (cases e)
  case (SistemaIniciar agora)
  then show ?thesis by (simp add: muda_por_def sistema_iniciar_def)
next
  case (PedidoCriar sock agora d)
  then show ?thesis using assms(1)
    by (auto simp: muda_por_def pedido_criar_def Let_def nth_append split: option.splits)
next
  case (SistemaReset agora)
  then show ?thesis using assms(2) by (simp add: sistema_reset_def)
next
  case (PedidoAceitar k)
  show ?thesis
  proof (cases "buscar k (pedidos s)")
    case None
    then show ?thesis using PedidoAceitar by (simp add: muda_por_def pedido_aceitar_def)
  next
    case (Some p)
    from atualizar_nth [OF Some assms(1), of "\<lambda>q. q\<lparr>status := Preparando\<rparr>"]
    show ?thesis using PedidoAceitar Some
      by (auto simp: muda_por_def pedido_aceitar_def arestas_codigo_def tabela_secao4_def)
  qed
next
  case (PedidoFinalizar agora k)
  show ?thesis
  proof (cases "buscar k (pedidos s)")
    case None
    then show ?thesis using PedidoFinalizar by (simp add: muda_por_def pedido_finalizar_def)
  next
    case (Some p)
    from atualizar_nth [OF Some assms(1), of "\<lambda>q. q\<lparr>status := Pronto, prontoEm := Some agora\<rparr>"]
    show ?thesis using PedidoFinalizar Some
      by (auto simp: muda_por_def pedido_finalizar_def arestas_codigo_def tabela_secao4_def)
  qed
next
  case (PedidoCancelar agora k)
  show ?thesis
  proof (cases "buscar k (pedidos s)")
    case None
    then show ?thesis using PedidoCancelar by (simp add: muda_por_def pedido_cancelar_def)
  next
    case (Some p)
    from atualizar_nth [OF Some assms(1), of "\<lambda>q. q\<lparr>status := Cancelado, canceladoEm := Some agora\<rparr>"]
    show ?thesis using PedidoCancelar Some
      by (cases "status p")
         (auto simp: muda_por_def pedido_cancelar_def arestas_codigo_def tabela_secao4_def)
  qed
next
  case (PedidoEntregar agora k)
  show ?thesis
  proof (cases "buscar k (pedidos s)")
    case None
    then show ?thesis using PedidoEntregar by (simp add: muda_por_def pedido_entregar_def)
  next
    case (Some p)
    from atualizar_nth [OF Some assms(1), of "\<lambda>q. q\<lparr>status := Entregue, entregueEm := Some agora\<rparr>"]
    show ?thesis using PedidoEntregar Some
      by (auto simp: muda_por_def pedido_entregar_def arestas_codigo_def tabela_secao4_def)
  qed
next
  case (TimerDispara h)
  show ?thesis
  proof (cases "find (\<lambda>(h', k). h' = h) (agendados s)")
    case None
    then show ?thesis using TimerDispara by (simp add: muda_por_def disparar_def)
  next
    case (Some hk)
    obtain h' k where hk: "hk = (h', k)" by (cases hk)
    show ?thesis
    proof (cases "buscar k (pedidos s)")
      case None
      then show ?thesis using TimerDispara Some hk
        by (simp add: muda_por_def disparar_def expirar_def)
    next
      case achado: (Some p)
      from atualizar_nth [OF achado assms(1), of "\<lambda>q. q\<lparr>status := Expirado\<rparr>"]
      show ?thesis using TimerDispara Some hk achado
        by (auto simp: muda_por_def disparar_def expirar_def arestas_codigo_def tabela_secao4_def)
    qed
  qed
qed

text \<open>
  C1 as stated fails: the order of the sample run has expired, a cancel then moves it from
  expired to canceled, and the table has no edge leaving expired.
\<close>

theorem status_fora_da_tabela:
  "status (pedidos cenario_expirado ! 0) = Expirado \<and>
   status (pedidos (snd (passo (PedidoCancelar ''10:01:00'' 1) cenario_expirado)) ! 0) = Cancelado \<and>
   \<not> muda_por tabela_secao4 (PedidoCancelar ''10:01:00'' 1)
       (status (pedidos cenario_expirado ! 0))
       (status (pedidos (snd (passo (PedidoCancelar ''10:01:00'' 1) cenario_expirado)) ! 0))"
  by code_simp

theorem status_segue_arestas_witness:
  "0 < length (pedidos cenario_pendente) \<and>
   0 < length (pedidos (snd (passo (PedidoAceitar 1) cenario_pendente))) \<and>
   status (pedidos cenario_pendente ! 0) = Pendente \<and>
   status (pedidos (snd (passo (PedidoAceitar 1) cenario_pendente)) ! 0) = Preparando \<and>
   muda_por arestas_codigo (PedidoAceitar 1)
     (status (pedidos cenario_pendente ! 0))
     (status (pedidos (snd (passo (PedidoAceitar 1) cenario_pendente)) ! 0))"
proof -
  have h1: "0 < length (pedidos cenario_pendente)" by code_simp
  have h2: "0 < length (pedidos (snd (passo (PedidoAceitar 1) cenario_pendente)))" by code_simp
  have a: "status (pedidos cenario_pendente ! 0) = Pendente" by code_simp
  have b: "status (pedidos (snd (passo (PedidoAceitar 1) cenario_pendente)) ! 0) = Preparando"
    by code_simp
  show ?thesis using status_segue_arestas [OF h1 h2] h1 h2 a b by simp
qed

subsection \<open>Runs of several events\<close>

lemma snd_executar_Cons: "snd (executar (e # es) s) = snd (executar es (snd (passo e s)))"
  by (cases "passo e s"; cases "executar es (snd (passo e s))") simp

lemma fst_executar_Cons:
  "fst (executar (e # es) s) = fst (passo e s) @ fst (executar es (snd (passo e s)))"
  by (cases "passo e s"; cases "executar es (snd (passo e s))") simp

lemma alcancavel_executar: "alcancavel s \<Longrightarrow> alcancavel (snd (executar es s))"
proof (induction es arbitrary: s)
  case Nil
  then show ?case by simp
next
  case (Cons e es)
  from Cons.prems have "alcancavel (snd (passo e s))" by (rule alcancavel.avanco)
  from Cons.IH [OF this] show ?case by (simp only: snd_executar_Cons)
qed

lemma ids_criados_append [simp]: "ids_criados (xs @ ys) = ids_criados xs @ ids_criados ys"
  by (simp add: ids_criados_def)

lemma ids_expirados_append [simp]: "ids_expirados (xs @ ys) = ids_expirados xs @ ids_expirados ys"
  by (simp add: ids_expirados_def)

lemma alcancavel_de_inicial: "alcancavel (snd (executar es inicial))"
  by (rule alcancavel_executar) (rule alcancavel.inicio)

subsection \<open>Expired orders\<close>

text \<open>
  C2 (amended).  For an order whose status is expired, accept, finalize and deliver fail
  with an error of class \<open>InvalidTransition\<close> sent to the caller only, and leave the whole
  state as it was.  Cancel does not fail: it announces \<open>pedido.cancelado\<close> to every
  connection and the order is stored as canceled, with \<open>canceladoEm\<close> set.
\<close>

theorem expirado_so_cancela:
  assumes "buscar k (pedidos s) = Some p" and "status p = Expirado"
  shows "pedido_aceitar k s = ([(Emissor, ErroOperacao ApenasPendentes)], s) \<and>
         classe ApenasPendentes = InvalidTransition \<and>
         pedido_finalizar agora k s = ([(Emissor, ErroOperacao ApenasEmPreparo)], s) \<and>
         classe ApenasEmPreparo = InvalidTransition \<and>
         pedido_entregar agora k s = ([(Emissor, ErroOperacao ApenasProntos)], s) \<and>
         classe ApenasProntos = InvalidTransition \<and>
         fst (pedido_cancelar agora k s) =
           [(Todos, PedidoCancelado (p\<lparr>status := Cancelado, canceladoEm := Some agora\<rparr>))] \<and>
         buscar k (pedidos (snd (pedido_cancelar agora k s))) =
           Some (p\<lparr>status := Cancelado, canceladoEm := Some agora\<rparr>)"
proof -
  have "id_pedido p = k" using assms(1) by (rule buscar_id)
  then have "buscar k (atualizar k (\<lambda>q. q\<lparr>status := Cancelado, canceladoEm := Some agora\<rparr>) (pedidos s))
      = Some (p\<lparr>status := Cancelado, canceladoEm := Some agora\<rparr>)"
    using assms(1) by (simp add: buscar_atualizar_mesmo)
  then show ?thesis using assms
    by (simp add: pedido_aceitar_def pedido_finalizar_def pedido_entregar_def pedido_cancelar_def)
qed

text \<open>
  C2 as stated fails for cancel: on the expired order of the sample run, cancel sends no
  error, broadcasts the canceled order and changes the stored status.
\<close>

theorem expirado_cancelar_nao_falha:
  "buscar 1 (pedidos cenario_expirado) =
     Some \<lparr>id_pedido = 1, cliente = ''Ana'', itens = ''Pizza'', status = Expirado,
           criadoEm = ''10:00:01'', socketId = ''sock1'',
           prontoEm = None, canceladoEm = None, entregueEm = None\<rparr> \<and>
   fst (pedido_cancelar ''10:01:00'' 1 cenario_expirado) =
     [(Todos, PedidoCancelado
         \<lparr>id_pedido = 1, cliente = ''Ana'', itens = ''Pizza'', status = Cancelado,
          criadoEm = ''10:00:01'', socketId = ''sock1'',
          prontoEm = None, canceladoEm = Some ''10:01:00'', entregueEm = None\<rparr>)] \<and>
   fst (pedido_cancelar ''10:01:00'' 1 cenario_expirado) \<noteq>
     [(Emissor, ErroOperacao NaoPodeSerCancelado)] \<and>
   map status (pedidos (snd (pedido_cancelar ''10:01:00'' 1 cenario_expirado))) = [Cancelado]"
  by code_simp

theorem expirado_so_cancela_witness:
  "buscar 1 (pedidos cenario_expirado) = Some (hd (pedidos cenario_expirado)) \<and>
   status (hd (pedidos cenario_expirado)) = Expirado \<and>
   pedido_aceitar 1 cenario_expirado = ([(Emissor, ErroOperacao ApenasPendentes)], cenario_expirado) \<and>
   pedido_finalizar ''10:01:00'' 1 cenario_expirado =
     ([(Emissor, ErroOperacao ApenasEmPreparo)], cenario_expirado) \<and>
   pedido_entregar ''10:01:00'' 1 cenario_expirado =
     ([(Emissor, ErroOperacao ApenasProntos)], cenario_expirado)"
proof -
  have h1: "buscar 1 (pedidos cenario_expirado) = Some (hd (pedidos cenario_expirado))"
    by code_simp
  have h2: "status (hd (pedidos cenario_expirado)) = Expirado" by code_simp
  show ?thesis using expirado_so_cancela [OF h1 h2, of "''10:01:00''"] h1 h2 by simp
qed

subsection \<open>Validation of a new order\<close>

text \<open>
  C3.  The handler tests the two properties before it trims them.  With the system active,
  a customer of three spaces passes the test, and the order is created, stored and
  announced with the empty text as its customer.
\<close>

theorem criar_so_espacos:
  "sistemaAtivo cenario_ativo \<and> trim ''   '' = [] \<and>
   pedido_criar ''sock1'' ''10:00:01'' dados_em_branco cenario_ativo =
     ([(Todos, PedidoCriado
          \<lparr>id_pedido = 1, cliente = [], itens = ''Pizza'', status = Pendente,
           criadoEm = ''10:00:01'', socketId = ''sock1'',
           prontoEm = None, canceladoEm = None, entregueEm = None\<rparr>)],
      \<lparr>sistemaAtivo = True,
       pedidos = [\<lparr>id_pedido = 1, cliente = [], itens = ''Pizza'', status = Pendente,
           criadoEm = ''10:00:01'', socketId = ''sock1'',
           prontoEm = None, canceladoEm = None, entregueEm = None\<rparr>],
       proximoId = 2, timersExpiracao = [(1, 0)], agendados = [(0, 1)], proximoTimer = 1\<rparr>)"
  by code_simp

text \<open>
  What the test does reject, and what is stored when it passes: an absent or empty
  property gives the error for invalid data and no change; otherwise the stored texts are
  the trimmed ones.
\<close>

lemma criar_ausente:
  "sistemaAtivo s \<Longrightarrow> falsy (dados_cliente d) \<or> falsy (dados_itens d) \<Longrightarrow>
   pedido_criar sock agora d s = ([(Emissor, ErroOperacao DadosInvalidos)], s)"
  by (simp add: pedido_criar_def)

lemma criar_presente:
  "sistemaAtivo s \<Longrightarrow> dados_cliente d = Some c \<Longrightarrow> dados_itens d = Some i \<Longrightarrow>
   c \<noteq> [] \<Longrightarrow> i \<noteq> [] \<Longrightarrow>
   fst (pedido_criar sock agora d s) = [(Todos, PedidoCriado (novoPedido sock agora c i (proximoId s)))] \<and>
   pedidos (snd (pedido_criar sock agora d s)) = pedidos s @ [novoPedido sock agora c i (proximoId s)] \<and>
   cliente (novoPedido sock agora c i (proximoId s)) = trim c \<and>
   itens (novoPedido sock agora c i (proximoId s)) = trim i"
  by (simp add: pedido_criar_def falsy_def Let_def novoPedido_def)

subsection \<open>Creating while the system is inactive\<close>

text \<open>
  C6.  While \<open>sistemaAtivo\<close> is false, \<open>pedido.criar\<close> sends one error of class
  \<open>SystemInactive\<close> to the caller only and returns the state unchanged: no order is
  stored, \<open>proximoId\<close> keeps its value, no timeout is scheduled, nothing is broadcast.
\<close>

theorem criar_inativo:
  "\<not> sistemaAtivo s \<Longrightarrow>
   pedido_criar sock agora d s = ([(Emissor, ErroOperacao SistemaNaoAtivo)], s) \<and>
   classe SistemaNaoAtivo = SystemInactive"
  by (simp add: pedido_criar_def)

theorem criar_inativo_witness:
  "\<not> sistemaAtivo inicial \<and>
   pedido_criar ''sock1'' ''10:00:01'' dados_ana inicial =
     ([(Emissor, ErroOperacao SistemaNaoAtivo)], inicial) \<and>
   classe SistemaNaoAtivo = SystemInactive"
proof -
  have h: "\<not> sistemaAtivo inicial" by (simp add: inicial_def)
  show ?thesis using criar_inativo [OF h, of "''sock1''" "''10:00:01''" dados_ana] h by simp
qed

subsection \<open>Reset\<close>

text \<open>
  C7.  In every state \<open>sistema.reset\<close> emits its broadcast and nothing else, so it has no
  error, empties the order list and the timer map, sets \<open>proximoId\<close> to 1 and leaves
  \<open>sistemaAtivo\<close> as it was.  In every reachable state it also leaves no timeout waiting
  in the runtime.
\<close>

theorem reset_limpa:
  "fst (sistema_reset agora s) = [(Todos, SistemaResetado agora)] \<and>
   pedidos (snd (sistema_reset agora s)) = [] \<and>
   proximoId (snd (sistema_reset agora s)) = 1 \<and>
   timersExpiracao (snd (sistema_reset agora s)) = [] \<and>
   sistemaAtivo (snd (sistema_reset agora s)) = sistemaAtivo s \<and>
   (alcancavel s \<longrightarrow> agendados (snd (sistema_reset agora s)) = [])"
  using timers_ok_reset [of s agora] alcancavel_inv [of s]
  by (simp add: sistema_reset_def)

theorem reset_limpa_witness:
  "alcancavel cenario_pendente \<and> agendados cenario_pendente = [(0, 1)] \<and>
   agendados (snd (sistema_reset ''10:02:00'' cenario_pendente)) = [] \<and>
   pedidos (snd (sistema_reset ''10:02:00'' cenario_pendente)) = [] \<and>
   proximoId (snd (sistema_reset ''10:02:00'' cenario_pendente)) = 1 \<and>
   sistemaAtivo (snd (sistema_reset ''10:02:00'' cenario_pendente)) = True"
proof -
  have "alcancavel (snd (passo (PedidoCriar ''sock1'' ''10:00:01'' dados_ana)
          (snd (passo (SistemaIniciar ''10:00:00'') inicial))))"
    by (intro alcancavel.intros)
  moreover have "snd (passo (PedidoCriar ''sock1'' ''10:00:01'' dados_ana)
          (snd (passo (SistemaIniciar ''10:00:00'') inicial))) = cenario_pendente"
    by (simp add: cenario_pendente_def split: prod.splits)
  ultimately have h: "alcancavel cenario_pendente" by simp
  have a: "agendados cenario_pendente = [(0, 1)]" by code_simp
  have b: "sistemaAtivo cenario_pendente = True" by code_simp
  show ?thesis using reset_limpa [of "''10:02:00''" cenario_pendente] h a b by simp
qed

subsection \<open>Ids of the stored orders\<close>

text \<open>
  C9.  In every reachable state the ids of the stored orders are strictly increasing in
  insertion order, hence pairwise distinct.
\<close>

theorem ids_crescentes_na_lista:
  "alcancavel s \<Longrightarrow>
   sorted_wrt (<) (map id_pedido (pedidos s)) \<and> distinct (map id_pedido (pedidos s))"
proof -
  assume "alcancavel s"
  then have "sorted_wrt (<) (map id_pedido (pedidos s))"
    using alcancavel_inv [of s] by (simp add: ids_ok_def)
  then show ?thesis by (simp add: strict_sorted_iff)
qed

theorem ids_crescentes_na_lista_witness:
  "alcancavel cenario_dois \<and> map id_pedido (pedidos cenario_dois) = [1, 2] \<and>
   sorted_wrt (<) (map id_pedido (pedidos cenario_dois)) \<and>
   distinct (map id_pedido (pedidos cenario_dois))"
proof -
  have h: "alcancavel cenario_dois"
    unfolding cenario_dois_def by (rule alcancavel_de_inicial)
  have a: "map id_pedido (pedidos cenario_dois) = [1, 2]" by code_simp
  show ?thesis using ids_crescentes_na_lista [OF h] h a by simp
qed

subsection \<open>Ids assigned along a run\<close>

lemma passo_ids_criados:
  assumes "\<not> e_reset e"
  shows "(ids_criados (fst (passo e s)) = [] \<and> proximoId (snd (passo e s)) = proximoId s) \<or>
         (ids_criados (fst (passo e s)) = [proximoId s] \<and>
          proximoId (snd (passo e s)) = proximoId s + 1)"
proof (cases e)
  case (PedidoCriar sock agora d)
  then show ?thesis
    by (auto simp: pedido_criar_def ids_criados_def criado_def novoPedido_def Let_def
             split: option.splits)
next
  case (SistemaReset agora)
  with assms show ?thesis by simp
next
  case (SistemaIniciar agora)
  then show ?thesis by (simp add: sistema_iniciar_def ids_criados_def criado_def)
next
  case (PedidoAceitar k)
  then show ?thesis
    by (auto simp: pedido_aceitar_def ids_criados_def criado_def split: option.splits)
next
  case (PedidoFinalizar agora k)
  then show ?thesis
    by (auto simp: pedido_finalizar_def ids_criados_def criado_def split: option.splits)
next
  case (PedidoCancelar agora k)
  then show ?thesis
    by (auto simp: pedido_cancelar_def ids_criados_def criado_def split: option.splits)
next
  case (PedidoEntregar agora k)
  then show ?thesis
    by (auto simp: pedido_entregar_def ids_criados_def criado_def split: option.splits)
next
  case (TimerDispara h)
  then show ?thesis
    by (auto simp: disparar_def expirar_def ids_criados_def criado_def split: option.splits)
qed

lemma executar_ids_criados:
  assumes "\<forall>e \<in> set es. \<not> e_reset e"
  shows "sorted_wrt (<) (ids_criados (fst (executar es s))) \<and>
         (\<forall>n \<in> set (ids_criados (fst (executar es s))).
            proximoId s \<le> n \<and> n < proximoId (snd (executar es s))) \<and>
         proximoId s \<le> proximoId (snd (executar es s))"
  using assms
proof (induction es arbitrary: s)
  case Nil
  then show ?case by (simp add: ids_criados_def)
next
  case (Cons e es)
  obtain o1 s1 where p: "passo e s = (o1, s1)" by (cases "passo e s")
  obtain o2 s2 where r: "executar es s1 = (o2, s2)" by (cases "executar es s1")
  from Cons.prems have ne: "\<not> e_reset e" and rest: "\<forall>e \<in> set es. \<not> e_reset e" by simp_all
  from Cons.IH [OF rest, of s1] r
  have ih: "sorted_wrt (<) (ids_criados o2)"
    "\<forall>n \<in> set (ids_criados o2). proximoId s1 \<le> n \<and> n < proximoId s2"
    "proximoId s1 \<le> proximoId s2" by simp_all
  from passo_ids_criados [OF ne, of s] p
  have "(ids_criados o1 = [] \<and> proximoId s1 = proximoId s) \<or>
        (ids_criados o1 = [proximoId s] \<and> proximoId s1 = proximoId s + 1)" by simp
  then show ?case using ih p r by (auto simp: sorted_wrt_append)
qed

text \<open>
  C4 (amended).  Along every run without a reset that starts in a reachable state, the ids
  announced for the created orders are strictly increasing, hence pairwise distinct; each
  is positive and differs from the id of every order stored at the start of the run.
\<close>

theorem ids_crescentes_sem_reset:
  assumes "alcancavel s" and "\<forall>e \<in> set es. \<not> e_reset e"
  shows "sorted_wrt (<) (ids_criados (fst (executar es s))) \<and>
         (\<forall>n \<in> set (ids_criados (fst (executar es s))).
            0 < n \<and> n \<notin> set (map id_pedido (pedidos s)))"
proof -
  from alcancavel_inv [OF assms(1)] have ok: "ids_ok s" by simp
  from executar_ids_criados [OF assms(2), of s]
  have a: "sorted_wrt (<) (ids_criados (fst (executar es s)))"
    and b: "\<forall>n \<in> set (ids_criados (fst (executar es s))). proximoId s \<le> n" by auto
  from ok b show ?thesis using a by (fastforce simp: ids_ok_def)
qed

text \<open>
  C4 as stated fails across a reset: the counter restarts at 1, so the order created after
  the reset receives the id of the order created before it.
\<close>

theorem id_repetido_apos_reset:
  "ids_criados (fst (executar eventos_com_reset inicial)) = [1, 1] \<and>
   \<not> sorted_wrt (<) (ids_criados (fst (executar eventos_com_reset inicial))) \<and>
   \<not> distinct (ids_criados (fst (executar eventos_com_reset inicial)))"
  by code_simp

theorem ids_crescentes_sem_reset_witness:
  "alcancavel cenario_ativo \<and>
   ids_criados (fst (executar eventos_sem_reset cenario_ativo)) = [1, 2] \<and>
   sorted_wrt (<) (ids_criados (fst (executar eventos_sem_reset cenario_ativo)))"
proof -
  have h1: "alcancavel cenario_ativo"
    unfolding cenario_ativo_def by (rule alcancavel_de_inicial)
  have h2: "\<forall>e \<in> set eventos_sem_reset. \<not> e_reset e"
    by (simp add: eventos_sem_reset_def)
  have a: "ids_criados (fst (executar eventos_sem_reset cenario_ativo)) = [1, 2]"
    by code_simp
  show ?thesis using ids_crescentes_sem_reset [OF h1 h2] h1 a by simp
qed

subsection \<open>Orders that have left pending\<close>

lemma buscar_atualizar:
  "(\<And>q. id_pedido (f q) = id_pedido q) \<Longrightarrow>
   buscar k (atualizar j f ps) = (if j = k then map_option f (buscar k ps) else buscar k ps)"
  unfolding buscar_def by (induction ps) auto

lemma passo_nao_volta:
  assumes "\<not> e_reset e" and "buscar k (pedidos s) = Some p" and "status p \<noteq> Pendente"
  shows "\<exists>p'. buscar k (pedidos (snd (passo e s))) = Some p' \<and> status p' \<noteq> Pendente \<and>
           (status p \<noteq> Expirado \<longrightarrow> status p' \<noteq> Expirado)"
proof (cases e)
  case (SistemaIniciar agora)
  with assms show ?thesis by (simp add: sistema_iniciar_def)
next
  case (PedidoCriar sock agora d)
  with assms show ?thesis
    by (auto simp: pedido_criar_def Let_def buscar_append_achado split: option.splits)
next
  case (SistemaReset agora)
  with assms show ?thesis by simp
next
  case (PedidoAceitar j)
  with assms show ?thesis
    by (auto simp: pedido_aceitar_def buscar_atualizar split: option.splits)
next
  case (PedidoFinalizar agora j)
  with assms show ?thesis
    by (auto simp: pedido_finalizar_def buscar_atualizar split: option.splits)
next
  case (PedidoCancelar agora j)
  with assms show ?thesis
    by (auto simp: pedido_cancelar_def buscar_atualizar split: option.splits)
next
  case (PedidoEntregar agora j)
  with assms show ?thesis
    by (auto simp: pedido_entregar_def buscar_atualizar split: option.splits)
next
  case (TimerDispara h)
  with assms show ?thesis
    by (auto simp: disparar_def expirar_def buscar_atualizar split: option.splits)
qed

lemma expirar_pendente:
  assumes "k \<in> set (ids_expirados (fst (expirar j s)))"
  shows "\<exists>p. buscar k (pedidos s) = Some p \<and> status p = Pendente"
proof (cases "buscar j (pedidos s)")
  case None
  with assms show ?thesis by (simp add: expirar_def ids_expirados_def)
next
  case (Some p)
  from buscar_id [OF Some] have "id_pedido p = j" .
  with assms Some show ?thesis
    by (auto simp: expirar_def ids_expirados_def expirado_def split: if_splits)
qed

lemma passo_expira_pendente:
  assumes "k \<in> set (ids_expirados (fst (passo e s)))"
  shows "\<exists>p. buscar k (pedidos s) = Some p \<and> status p = Pendente"
proof (cases e)
  case (TimerDispara h)
  show ?thesis
  proof (cases "find (\<lambda>(h', k). h' = h) (agendados s)")
    case None
    with assms TimerDispara show ?thesis by (simp add: disparar_def ids_expirados_def)
  next
    case (Some hk)
    obtain h' j where "hk = (h', j)" by (cases hk)
    with assms TimerDispara Some
    have "k \<in> set (ids_expirados (fst (expirar j (s\<lparr>agendados := clearTimeout h (agendados s)\<rparr>))))"
      by (simp add: disparar_def)
    from expirar_pendente [OF this] show ?thesis by simp
  qed
next
  case (SistemaIniciar agora)
  with assms show ?thesis by (simp add: sistema_iniciar_def ids_expirados_def expirado_def)
next
  case (PedidoCriar sock agora d)
  with assms show ?thesis
    by (auto simp: pedido_criar_def Let_def ids_expirados_def expirado_def
             split: option.splits if_splits)
next
  case (SistemaReset agora)
  with assms show ?thesis by (simp add: sistema_reset_def ids_expirados_def expirado_def)
next
  case (PedidoAceitar j)
  with assms show ?thesis
    by (auto simp: pedido_aceitar_def ids_expirados_def expirado_def split: option.splits if_splits)
next
  case (PedidoFinalizar agora j)
  with assms show ?thesis
    by (auto simp: pedido_finalizar_def ids_expirados_def expirado_def split: option.splits if_splits)
next
  case (PedidoCancelar agora j)
  with assms show ?thesis
    by (auto simp: pedido_cancelar_def ids_expirados_def expirado_def split: option.splits if_splits)
next
  case (PedidoEntregar agora j)
  with assms show ?thesis
    by (auto simp: pedido_entregar_def ids_expirados_def expirado_def split: option.splits if_splits)
qed

lemma executar_nao_volta:
  assumes "\<forall>e \<in> set es. \<not> e_reset e" and "buscar k (pedidos s) = Some p"
    and "status p \<noteq> Pendente"
  shows "k \<notin> set (ids_expirados (fst (executar es s))) \<and>
         (\<exists>p'. buscar k (pedidos (snd (executar es s))) = Some p' \<and> status p' \<noteq> Pendente \<and>
            (status p \<noteq> Expirado \<longrightarrow> status p' \<noteq> Expirado))"
  using assms
proof (induction es arbitrary: s p)
  case Nil
  then show ?case by (simp add: ids_expirados_def)
next
  case (Cons e es)
  from Cons.prems have ne: "\<not> e_reset e" and rest: "\<forall>e \<in> set es. \<not> e_reset e" by simp_all
  from passo_nao_volta [OF ne Cons.prems(2,3)]
  obtain p1 where p1: "buscar k (pedidos (snd (passo e s))) = Some p1" "status p1 \<noteq> Pendente"
    "status p \<noteq> Expirado \<longrightarrow> status p1 \<noteq> Expirado" by blast
  have agora: "k \<notin> set (ids_expirados (fst (passo e s)))"
    using passo_expira_pendente [of k e s] Cons.prems(2,3) by auto
  from Cons.IH [OF rest p1(1,2)] p1(3) agora show ?case
    by (auto simp: snd_executar_Cons fst_executar_Cons simp del: executar.simps)
qed

lemma sem_timer:
  assumes "timers_ok s" and "buscar k (pedidos s) = Some p" and "status p \<noteq> Pendente"
  shows "map_of (timersExpiracao s) k = None \<and> k \<notin> snd ` set (agendados s)"
proof -
  have a: "k \<notin> snd ` set (agendados s)"
    using assms by (auto simp: timers_ok_def)
  have "map_of (timersExpiracao s) k = None"
  proof (rule ccontr)
    assume "map_of (timersExpiracao s) k \<noteq> None"
    then obtain h where "map_of (timersExpiracao s) k = Some h" by auto
    then have "(k, h) \<in> set (timersExpiracao s)" by (rule map_of_SomeD)
    with assms(1) have "(h, k) \<in> set (agendados s)" by (auto simp: timers_ok_def)
    with a show False by force
  qed
  with a show ?thesis by simp
qed

text \<open>
  C5.  Take a reachable state in which order \<open>k\<close> is stored with a status other than
  pending, as it is right after an accept, a cancel or the firing of its timer.  Then the
  map holds no timer for \<open>k\<close> and no timeout for \<open>k\<close> waits in the runtime.  Along every
  later run, up to the next reset (which discards the order), no \<open>pedido.expirado\<close> is
  emitted for \<open>k\<close>, the order stays stored with a status other than pending, it is not
  expired unless it already was, and still no timer for \<open>k\<close> exists; so no callback runs
  for it, whenever the timeouts fire.
\<close>

theorem fora_de_pendente_nao_expira:
  assumes "alcancavel s" and "buscar k (pedidos s) = Some p" and "status p \<noteq> Pendente"
    and "\<forall>e \<in> set es. \<not> e_reset e"
  shows "map_of (timersExpiracao s) k = None \<and> k \<notin> snd ` set (agendados s) \<and>
         k \<notin> set (ids_expirados (fst (executar es s))) \<and>
         (\<exists>p'. buscar k (pedidos (snd (executar es s))) = Some p' \<and> status p' \<noteq> Pendente \<and>
            (status p \<noteq> Expirado \<longrightarrow> status p' \<noteq> Expirado)) \<and>
         map_of (timersExpiracao (snd (executar es s))) k = None \<and>
         k \<notin> snd ` set (agendados (snd (executar es s)))"
proof -
  from alcancavel_inv [OF assms(1)] have t0: "timers_ok s" by simp
  from alcancavel_inv [OF alcancavel_executar [OF assms(1), of es]]
  have t1: "timers_ok (snd (executar es s))" by simp
  from executar_nao_volta [OF assms(4,2,3)]
  obtain p' where p': "k \<notin> set (ids_expirados (fst (executar es s)))"
    "buscar k (pedidos (snd (executar es s))) = Some p'" "status p' \<noteq> Pendente"
    "status p \<noteq> Expirado \<longrightarrow> status p' \<noteq> Expirado" by blast
  from sem_timer [OF t0 assms(2,3)] sem_timer [OF t1 p'(2,3)] p'
  show ?thesis by blast
qed

theorem fora_de_pendente_nao_expira_witness:
  "alcancavel cenario_aceito \<and>
   buscar 1 (pedidos cenario_aceito) = Some (hd (pedidos cenario_aceito)) \<and>
   status (hd (pedidos cenario_aceito)) = Preparando \<and>
   map_of (timersExpiracao cenario_aceito) 1 = None \<and>
   1 \<notin> snd ` set (agendados cenario_aceito) \<and>
   1 \<notin> set (ids_expirados (fst (executar eventos_apos_aceite cenario_aceito))) \<and>
   map status (pedidos (snd (executar eventos_apos_aceite cenario_aceito))) = [Pronto]"
proof -
  have h1: "alcancavel cenario_aceito"
    unfolding cenario_aceito_def by (rule alcancavel_de_inicial)
  have h2: "buscar 1 (pedidos cenario_aceito) = Some (hd (pedidos cenario_aceito))"
    by code_simp
  have a: "status (hd (pedidos cenario_aceito)) = Preparando" by code_simp
  then have h3: "status (hd (pedidos cenario_aceito)) \<noteq> Pendente" by simp
  have h4: "\<forall>e \<in> set eventos_apos_aceite. \<not> e_reset e"
    by (simp add: eventos_apos_aceite_def)
  have b: "map status (pedidos (snd (executar eventos_apos_aceite cenario_aceito))) = [Pronto]"
    by code_simp
  show ?thesis using fora_de_pendente_nao_expira [OF h1 h2 h3 h4] h1 h2 a b by simp
qed

subsection \<open>The active flag\<close>

text \<open>
  Each order handler succeeds when its own precondition holds: it broadcasts the updated
  order and stores it.  Nothing here mentions \<open>sistemaAtivo\<close>.
\<close>

lemma aceitar_sucede:
  assumes "buscar k (pedidos s) = Some p" and "status p = Pendente"
  shows "fst (pedido_aceitar k s) = [(Todos, PedidoAceito (p\<lparr>status := Preparando\<rparr>))] \<and>
         buscar k (pedidos (snd (pedido_aceitar k s))) = Some (p\<lparr>status := Preparando\<rparr>)"
proof -
  have "id_pedido p = k" using assms(1) by (rule buscar_id)
  with assms show ?thesis by (simp add: pedido_aceitar_def buscar_atualizar_mesmo)
qed

lemma finalizar_sucede:
  assumes "buscar k (pedidos s) = Some p" and "status p = Preparando"
  shows "fst (pedido_finalizar agora k s) =
           [(Todos, PedidoFinalizado (p\<lparr>status := Pronto, prontoEm := Some agora\<rparr>))] \<and>
         buscar k (pedidos (snd (pedido_finalizar agora k s))) =
           Some (p\<lparr>status := Pronto, prontoEm := Some agora\<rparr>)"
proof -
  have "id_pedido p = k" using assms(1) by (rule buscar_id)
  with assms show ?thesis by (simp add: pedido_finalizar_def buscar_atualizar_mesmo)
qed

lemma cancelar_sucede:
  assumes "buscar k (pedidos s) = Some p" and "status p \<noteq> Entregue" and "status p \<noteq> Cancelado"
  shows "fst (pedido_cancelar agora k s) =
           [(Todos, PedidoCancelado (p\<lparr>status := Cancelado, canceladoEm := Some agora\<rparr>))] \<and>
         buscar k (pedidos (snd (pedido_cancelar agora k s))) =
           Some (p\<lparr>status := Cancelado, canceladoEm := Some agora\<rparr>)"
proof -
  have "id_pedido p = k" using assms(1) by (rule buscar_id)
  with assms show ?thesis by (simp add: pedido_cancelar_def buscar_atualizar_mesmo)
qed

lemma entregar_sucede:
  assumes "buscar k (pedidos s) = Some p" and "status p = Pronto"
  shows "fst (pedido_entregar agora k s) =
           [(Todos, PedidoEntregue (p\<lparr>status := Entregue, entregueEm := Some agora\<rparr>))] \<and>
         buscar k (pedidos (snd (pedido_entregar agora k s))) =
           Some (p\<lparr>status := Entregue, entregueEm := Some agora\<rparr>)"
proof -
  have "id_pedido p = k" using assms(1) by (rule buscar_id)
  with assms show ?thesis by (simp add: pedido_entregar_def buscar_atualizar_mesmo)
qed

text \<open>
  No handler writes \<open>false\<close> to the flag, and only \<open>pedido.criar\<close>, which needs the flag,
  adds an order.  So in a reachable state the flag is false only while no order is stored,
  and the four order handlers then have no order to act on: they answer that the order
  was not found.
\<close>

lemma ativo_ou_vazio_passo:
  assumes "sistemaAtivo s \<or> pedidos s = []"
  shows "sistemaAtivo (snd (passo e s)) \<or> pedidos (snd (passo e s)) = []"
proof (cases e)
  case (SistemaIniciar agora)
  then show ?thesis by (simp add: sistema_iniciar_def)
next
  case (PedidoCriar sock agora d)
  with assms show ?thesis
    by (auto simp: pedido_criar_def Let_def split: option.splits)
next
  case (PedidoAceitar k)
  with assms show ?thesis
    by (auto simp: pedido_aceitar_def buscar_def split: option.splits)
next
  case (PedidoFinalizar agora k)
  with assms show ?thesis
    by (auto simp: pedido_finalizar_def buscar_def split: option.splits)
next
  case (PedidoCancelar agora k)
  with assms show ?thesis
    by (auto simp: pedido_cancelar_def buscar_def split: option.splits)
next
  case (PedidoEntregar agora k)
  with assms show ?thesis
    by (auto simp: pedido_entregar_def buscar_def split: option.splits)
next
  case (SistemaReset agora)
  then show ?thesis by (simp add: sistema_reset_def)
next
  case (TimerDispara h)
  with assms show ?thesis
    by (auto simp: disparar_def expirar_def buscar_def split: option.splits)
qed

lemma ativo_ou_vazio: "alcancavel s \<Longrightarrow> sistemaAtivo s \<or> pedidos s = []"
proof (induction rule: alcancavel.induct)
  case inicio
  show ?case by (simp add: inicial_def)
next
  case (avanco s e)
  from avanco.IH show ?case by (rule ativo_ou_vazio_passo)
qed

lemma inativo_nao_encontrado:
  assumes "alcancavel s" and "\<not> sistemaAtivo s"
  shows "pedido_aceitar k s = ([(Emissor, ErroOperacao PedidoNaoEncontrado)], s) \<and>
         pedido_finalizar agora k s = ([(Emissor, ErroOperacao PedidoNaoEncontrado)], s) \<and>
         pedido_cancelar agora k s = ([(Emissor, ErroOperacao PedidoNaoEncontrado)], s) \<and>
         pedido_entregar agora k s = ([(Emissor, ErroOperacao PedidoNaoEncontrado)], s)"
proof -
  from ativo_ou_vazio [OF assms(1)] assms(2) have "pedidos s = []" by simp
  then show ?thesis
    by (simp add: pedido_aceitar_def pedido_finalizar_def pedido_cancelar_def pedido_entregar_def
          buscar_def)
qed

text \<open>
  C8.  Accept, finalize, cancel, deliver and reset never read \<open>sistemaAtivo\<close>: run with the
  flag set to any value, each emits the same messages and produces the same state, up to
  the flag, as without that change, and none of them sends the error of an inactive
  system.  With the flag false each succeeds under its own precondition: accept on a
  pending order, finalize on one in preparation, cancel on one neither delivered nor
  canceled, deliver on a ready one, each broadcasting the updated order and storing it;
  reset broadcasts, empties the list and the map and restarts the counter.  The flag is
  still false afterwards.
\<close>

theorem so_criar_consulta_ativo:
  "pedido_aceitar k (s\<lparr>sistemaAtivo := b\<rparr>) =
     (fst (pedido_aceitar k s), (snd (pedido_aceitar k s))\<lparr>sistemaAtivo := b\<rparr>) \<and>
   pedido_finalizar agora k (s\<lparr>sistemaAtivo := b\<rparr>) =
     (fst (pedido_finalizar agora k s), (snd (pedido_finalizar agora k s))\<lparr>sistemaAtivo := b\<rparr>) \<and>
   pedido_cancelar agora k (s\<lparr>sistemaAtivo := b\<rparr>) =
     (fst (pedido_cancelar agora k s), (snd (pedido_cancelar agora k s))\<lparr>sistemaAtivo := b\<rparr>) \<and>
   pedido_entregar agora k (s\<lparr>sistemaAtivo := b\<rparr>) =
     (fst (pedido_entregar agora k s), (snd (pedido_entregar agora k s))\<lparr>sistemaAtivo := b\<rparr>) \<and>
   sistema_reset agora (s\<lparr>sistemaAtivo := b\<rparr>) =
     (fst (sistema_reset agora s), (snd (sistema_reset agora s))\<lparr>sistemaAtivo := b\<rparr>) \<and>
   (Emissor, ErroOperacao SistemaNaoAtivo) \<notin> set (fst (pedido_aceitar k s)) \<and>
   (Emissor, ErroOperacao SistemaNaoAtivo) \<notin> set (fst (pedido_finalizar agora k s)) \<and>
   (Emissor, ErroOperacao SistemaNaoAtivo) \<notin> set (fst (pedido_cancelar agora k s)) \<and>
   (Emissor, ErroOperacao SistemaNaoAtivo) \<notin> set (fst (pedido_entregar agora k s)) \<and>
   (Emissor, ErroOperacao SistemaNaoAtivo) \<notin> set (fst (sistema_reset agora s)) \<and>
   (buscar k (pedidos s) = Some p \<and> status p = Pendente \<longrightarrow>
      fst (pedido_aceitar k (s\<lparr>sistemaAtivo := False\<rparr>)) =
        [(Todos, PedidoAceito (p\<lparr>status := Preparando\<rparr>))] \<and>
      buscar k (pedidos (snd (pedido_aceitar k (s\<lparr>sistemaAtivo := False\<rparr>)))) =
        Some (p\<lparr>status := Preparando\<rparr>) \<and>
      \<not> sistemaAtivo (snd (pedido_aceitar k (s\<lparr>sistemaAtivo := False\<rparr>)))) \<and>
   (buscar k (pedidos s) = Some p \<and> status p = Preparando \<longrightarrow>
      fst (pedido_finalizar agora k (s\<lparr>sistemaAtivo := False\<rparr>)) =
        [(Todos, PedidoFinalizado (p\<lparr>status := Pronto, prontoEm := Some agora\<rparr>))] \<and>
      buscar k (pedidos (snd (pedido_finalizar agora k (s\<lparr>sistemaAtivo := False\<rparr>)))) =
        Some (p\<lparr>status := Pronto, prontoEm := Some agora\<rparr>) \<and>
      \<not> sistemaAtivo (snd (pedido_finalizar agora k (s\<lparr>sistemaAtivo := False\<rparr>)))) \<and>
   (buscar k (pedidos s) = Some p \<and> status p \<noteq> Entregue \<and> status p \<noteq> Cancelado \<longrightarrow>
      fst (pedido_cancelar agora k (s\<lparr>sistemaAtivo := False\<rparr>)) =
        [(Todos, PedidoCancelado (p\<lparr>status := Cancelado, canceladoEm := Some agora\<rparr>))] \<and>
      buscar k (pedidos (snd (pedido_cancelar agora k (s\<lparr>sistemaAtivo := False\<rparr>)))) =
        Some (p\<lparr>status := Cancelado, canceladoEm := Some agora\<rparr>) \<and>
      \<not> sistemaAtivo (snd (pedido_cancelar agora k (s\<lparr>sistemaAtivo := False\<rparr>)))) \<and>
   (buscar k (pedidos s) = Some p \<and> status p = Pronto \<longrightarrow>
      fst (pedido_entregar agora k (s\<lparr>sistemaAtivo := False\<rparr>)) =
        [(Todos, PedidoEntregue (p\<lparr>status := Entregue, entregueEm := Some agora\<rparr>))] \<and>
      buscar k (pedidos (snd (pedido_entregar agora k (s\<lparr>sistemaAtivo := False\<rparr>)))) =
        Some (p\<lparr>status := Entregue, entregueEm := Some agora\<rparr>) \<and>
      \<not> sistemaAtivo (snd (pedido_entregar agora k (s\<lparr>sistemaAtivo := False\<rparr>)))) \<and>
   fst (sistema_reset agora (s\<lparr>sistemaAtivo := False\<rparr>)) = [(Todos, SistemaResetado agora)] \<and>
   pedidos (snd (sistema_reset agora (s\<lparr>sistemaAtivo := False\<rparr>))) = [] \<and>
   proximoId (snd (sistema_reset agora (s\<lparr>sistemaAtivo := False\<rparr>))) = 1 \<and>
   timersExpiracao (snd (sistema_reset agora (s\<lparr>sistemaAtivo := False\<rparr>))) = [] \<and>
   \<not> sistemaAtivo (snd (sistema_reset agora (s\<lparr>sistemaAtivo := False\<rparr>)))"
proof -
  let ?s0 = "s\<lparr>sistemaAtivo := False\<rparr>"
  have a: "pedido_aceitar k (s\<lparr>sistemaAtivo := b\<rparr>) =
     (fst (pedido_aceitar k s), (snd (pedido_aceitar k s))\<lparr>sistemaAtivo := b\<rparr>)" for b
    by (simp add: pedido_aceitar_def limparTimer_def split: option.splits)
  have f: "pedido_finalizar agora k (s\<lparr>sistemaAtivo := b\<rparr>) =
     (fst (pedido_finalizar agora k s), (snd (pedido_finalizar agora k s))\<lparr>sistemaAtivo := b\<rparr>)" for b
    by (simp add: pedido_finalizar_def split: option.splits)
  have c: "pedido_cancelar agora k (s\<lparr>sistemaAtivo := b\<rparr>) =
     (fst (pedido_cancelar agora k s), (snd (pedido_cancelar agora k s))\<lparr>sistemaAtivo := b\<rparr>)" for b
    by (simp add: pedido_cancelar_def limparTimer_def split: option.splits)
  have e: "pedido_entregar agora k (s\<lparr>sistemaAtivo := b\<rparr>) =
     (fst (pedido_entregar agora k s), (snd (pedido_entregar agora k s))\<lparr>sistemaAtivo := b\<rparr>)" for b
    by (simp add: pedido_entregar_def split: option.splits)
  have r: "sistema_reset agora (s\<lparr>sistemaAtivo := b\<rparr>) =
     (fst (sistema_reset agora s), (snd (sistema_reset agora s))\<lparr>sistemaAtivo := b\<rparr>)" for b
    by (simp add: sistema_reset_def)
  have na: "(Emissor, ErroOperacao SistemaNaoAtivo) \<notin> set (fst (pedido_aceitar k s))"
    by (simp add: pedido_aceitar_def split: option.splits)
  have nf: "(Emissor, ErroOperacao SistemaNaoAtivo) \<notin> set (fst (pedido_finalizar agora k s))"
    by (simp add: pedido_finalizar_def split: option.splits)
  have nc: "(Emissor, ErroOperacao SistemaNaoAtivo) \<notin> set (fst (pedido_cancelar agora k s))"
    by (simp add: pedido_cancelar_def split: option.splits)
  have ne: "(Emissor, ErroOperacao SistemaNaoAtivo) \<notin> set (fst (pedido_entregar agora k s))"
    by (simp add: pedido_entregar_def split: option.splits)
  have nr: "(Emissor, ErroOperacao SistemaNaoAtivo) \<notin> set (fst (sistema_reset agora s))"
    by (simp add: sistema_reset_def)
  have sa: "buscar k (pedidos s) = Some p \<and> status p = Pendente \<longrightarrow>
      fst (pedido_aceitar k ?s0) = [(Todos, PedidoAceito (p\<lparr>status := Preparando\<rparr>))] \<and>
      buscar k (pedidos (snd (pedido_aceitar k ?s0))) = Some (p\<lparr>status := Preparando\<rparr>) \<and>
      \<not> sistemaAtivo (snd (pedido_aceitar k ?s0))"
    using aceitar_sucede [of k ?s0 p] by (simp add: a [of False])
  have sf: "buscar k (pedidos s) = Some p \<and> status p = Preparando \<longrightarrow>
      fst (pedido_finalizar agora k ?s0) =
        [(Todos, PedidoFinalizado (p\<lparr>status := Pronto, prontoEm := Some agora\<rparr>))] \<and>
      buscar k (pedidos (snd (pedido_finalizar agora k ?s0))) =
        Some (p\<lparr>status := Pronto, prontoEm := Some agora\<rparr>) \<and>
      \<not> sistemaAtivo (snd (pedido_finalizar agora k ?s0))"
    using finalizar_sucede [of k ?s0 p agora] by (simp add: f [of False])
  have sc: "buscar k (pedidos s) = Some p \<and> status p \<noteq> Entregue \<and> status p \<noteq> Cancelado \<longrightarrow>
      fst (pedido_cancelar agora k ?s0) =
        [(Todos, PedidoCancelado (p\<lparr>status := Cancelado, canceladoEm := Some agora\<rparr>))] \<and>
      buscar k (pedidos (snd (pedido_cancelar agora k ?s0))) =
        Some (p\<lparr>status := Cancelado, canceladoEm := Some agora\<rparr>) \<and>
      \<not> sistemaAtivo (snd (pedido_cancelar agora k ?s0))"
    using cancelar_sucede [of k ?s0 p agora] by (simp add: c [of False])
  have se: "buscar k (pedidos s) = Some p \<and> status p = Pronto \<longrightarrow>
      fst (pedido_entregar agora k ?s0) =
        [(Todos, PedidoEntregue (p\<lparr>status := Entregue, entregueEm := Some agora\<rparr>))] \<and>
      buscar k (pedidos (snd (pedido_entregar agora k ?s0))) =
        Some (p\<lparr>status := Entregue, entregueEm := Some agora\<rparr>) \<and>
      \<not> sistemaAtivo (snd (pedido_entregar agora k ?s0))"
    using entregar_sucede [of k ?s0 p agora] by (simp add: e [of False])
  have sr: "fst (sistema_reset agora ?s0) = [(Todos, SistemaResetado agora)]"
    "pedidos (snd (sistema_reset agora ?s0)) = []"
    "proximoId (snd (sistema_reset agora ?s0)) = 1"
    "timersExpiracao (snd (sistema_reset agora ?s0)) = []"
    "\<not> sistemaAtivo (snd (sistema_reset agora ?s0))"
    by (simp_all add: sistema_reset_def)
  from a [of b] f [of b] c [of b] e [of b] r [of b] na nf nc ne nr sa sf sc se sr
  show ?thesis by (intro conjI)
qed

text \<open>
  The theorem applied to each handler: accept and cancel on the pending order, finalize on
  the accepted one, deliver on the ready one, each with the flag cleared, and reset in the
  initial state, where the flag is false.
\<close>

theorem so_criar_consulta_ativo_witness:
  "buscar 1 (pedidos cenario_pendente) = Some (hd (pedidos cenario_pendente)) \<and>
   status (hd (pedidos cenario_pendente)) = Pendente \<and>
   fst (pedido_aceitar 1 (cenario_pendente\<lparr>sistemaAtivo := False\<rparr>)) =
     [(Todos, PedidoAceito ((hd (pedidos cenario_pendente))\<lparr>status := Preparando\<rparr>))] \<and>
   map status (pedidos (snd (pedido_aceitar 1 (cenario_pendente\<lparr>sistemaAtivo := False\<rparr>)))) =
     [Preparando] \<and>
   fst (pedido_cancelar ''10:00:05'' 1 (cenario_pendente\<lparr>sistemaAtivo := False\<rparr>)) =
     [(Todos, PedidoCancelado
         ((hd (pedidos cenario_pendente))\<lparr>status := Cancelado, canceladoEm := Some ''10:00:05''\<rparr>))] \<and>
   map status
     (pedidos (snd (pedido_cancelar ''10:00:05'' 1 (cenario_pendente\<lparr>sistemaAtivo := False\<rparr>)))) =
     [Cancelado] \<and>
   buscar 1 (pedidos cenario_aceito) = Some (hd (pedidos cenario_aceito)) \<and>
   status (hd (pedidos cenario_aceito)) = Preparando \<and>
   fst (pedido_finalizar ''10:00:20'' 1 (cenario_aceito\<lparr>sistemaAtivo := False\<rparr>)) =
     [(Todos, PedidoFinalizado
         ((hd (pedidos cenario_aceito))\<lparr>status := Pronto, prontoEm := Some ''10:00:20''\<rparr>))] \<and>
   map status
     (pedidos (snd (pedido_finalizar ''10:00:20'' 1 (cenario_aceito\<lparr>sistemaAtivo := False\<rparr>)))) =
     [Pronto] \<and>
   buscar 1 (pedidos cenario_pronto) = Some (hd (pedidos cenario_pronto)) \<and>
   status (hd (pedidos cenario_pronto)) = Pronto \<and>
   fst (pedido_entregar ''10:00:30'' 1 (cenario_pronto\<lparr>sistemaAtivo := False\<rparr>)) =
     [(Todos, PedidoEntregue
         ((hd (pedidos cenario_pronto))\<lparr>status := Entregue, entregueEm := Some ''10:00:30''\<rparr>))] \<and>
   map status
     (pedidos (snd (pedido_entregar ''10:00:30'' 1 (cenario_pronto\<lparr>sistemaAtivo := False\<rparr>)))) =
     [Entregue] \<and>
   alcancavel inicial \<and> inicial\<lparr>sistemaAtivo := False\<rparr> = inicial \<and>
   fst (sistema_reset ''10:00:40'' inicial) = [(Todos, SistemaResetado ''10:00:40'')]"
proof -
  have p1: "buscar 1 (pedidos cenario_pendente) = Some (hd (pedidos cenario_pendente))"
    by code_simp
  have p2: "status (hd (pedidos cenario_pendente)) = Pendente" by code_simp
  from p2 have p3: "status (hd (pedidos cenario_pendente)) \<noteq> Entregue"
    "status (hd (pedidos cenario_pendente)) \<noteq> Cancelado" by simp_all
  have a1: "buscar 1 (pedidos cenario_aceito) = Some (hd (pedidos cenario_aceito))"
    by code_simp
  have a2: "status (hd (pedidos cenario_aceito)) = Preparando" by code_simp
  have r1: "buscar 1 (pedidos cenario_pronto) = Some (hd (pedidos cenario_pronto))"
    by code_simp
  have r2: "status (hd (pedidos cenario_pronto)) = Pronto" by code_simp
  have ma: "map status (pedidos (snd (pedido_aceitar 1 (cenario_pendente\<lparr>sistemaAtivo := False\<rparr>)))) =
     [Preparando]" by code_simp
  have mc: "map status
     (pedidos (snd (pedido_cancelar ''10:00:05'' 1 (cenario_pendente\<lparr>sistemaAtivo := False\<rparr>)))) =
     [Cancelado]" by code_simp
  have mf: "map status
     (pedidos (snd (pedido_finalizar ''10:00:20'' 1 (cenario_aceito\<lparr>sistemaAtivo := False\<rparr>)))) =
     [Pronto]" by code_simp
  have me: "map status
     (pedidos (snd (pedido_entregar ''10:00:30'' 1 (cenario_pronto\<lparr>sistemaAtivo := False\<rparr>)))) =
     [Entregue]" by code_simp
  have i0: "inicial\<lparr>sistemaAtivo := False\<rparr> = inicial" by (simp add: inicial_def)
  have ta: "fst (pedido_aceitar 1 (cenario_pendente\<lparr>sistemaAtivo := False\<rparr>)) =
     [(Todos, PedidoAceito ((hd (pedidos cenario_pendente))\<lparr>status := Preparando\<rparr>))]"
    using so_criar_consulta_ativo [where k = 1 and s = cenario_pendente and p = "hd (pedidos cenario_pendente)"]
      p1 p2 by blast
  have tc: "fst (pedido_cancelar ''10:00:05'' 1 (cenario_pendente\<lparr>sistemaAtivo := False\<rparr>)) =
     [(Todos, PedidoCancelado
         ((hd (pedidos cenario_pendente))\<lparr>status := Cancelado, canceladoEm := Some ''10:00:05''\<rparr>))]"
    using so_criar_consulta_ativo [where k = 1 and s = cenario_pendente and p = "hd (pedidos cenario_pendente)"
        and agora = "''10:00:05''"] p1 p3 by blast
  have tf: "fst (pedido_finalizar ''10:00:20'' 1 (cenario_aceito\<lparr>sistemaAtivo := False\<rparr>)) =
     [(Todos, PedidoFinalizado
         ((hd (pedidos cenario_aceito))\<lparr>status := Pronto, prontoEm := Some ''10:00:20''\<rparr>))]"
    using so_criar_consulta_ativo [where k = 1 and s = cenario_aceito and p = "hd (pedidos cenario_aceito)"
        and agora = "''10:00:20''"] a1 a2 by blast
  have te: "fst (pedido_entregar ''10:00:30'' 1 (cenario_pronto\<lparr>sistemaAtivo := False\<rparr>)) =
     [(Todos, PedidoEntregue
         ((hd (pedidos cenario_pronto))\<lparr>status := Entregue, entregueEm := Some ''10:00:30''\<rparr>))]"
    using so_criar_consulta_ativo [where k = 1 and s = cenario_pronto and p = "hd (pedidos cenario_pronto)"
        and agora = "''10:00:30''"] r1 r2 by blast
  have "fst (sistema_reset ''10:00:40'' (inicial\<lparr>sistemaAtivo := False\<rparr>)) =
      [(Todos, SistemaResetado ''10:00:40'')]"
    using so_criar_consulta_ativo [where s = inicial and agora = "''10:00:40''"] by blast
  then have tr: "fst (sistema_reset ''10:00:40'' inicial) = [(Todos, SistemaResetado ''10:00:40'')]"
    by (simp only: i0)
  from p1 p2 ta ma tc mc a1 a2 tf mf r1 r2 te me alcancavel.inicio i0 tr
  show ?thesis by (intro conjI)
qed

subsection \<open>Fields written at creation\<close>

text \<open>
  C10.  A step by accept, finalize, cancel, deliver or a timer keeps, for every stored
  order, the id, customer, items, creation time and socket id, keeps the number and order
  of the stored orders, the active flag and the id counter, and writes no time stamp
  other than the one of its own action: \<open>prontoEm\<close> for finalize, \<open>canceladoEm\<close> for
  cancel, \<open>entregueEm\<close> for deliver, none for accept and the timer.
\<close>

theorem campos_fixos:
  assumes "acao_de e = Some ac"
  shows "map nucleo (pedidos (snd (passo e s))) = map nucleo (pedidos s) \<and>
         sistemaAtivo (snd (passo e s)) = sistemaAtivo s \<and>
         proximoId (snd (passo e s)) = proximoId s \<and>
         (ac \<noteq> Finalizar \<longrightarrow> map prontoEm (pedidos (snd (passo e s))) = map prontoEm (pedidos s)) \<and>
         (ac \<noteq> Cancelar \<longrightarrow>
            map canceladoEm (pedidos (snd (passo e s))) = map canceladoEm (pedidos s)) \<and>
         (ac \<noteq> Entregar \<longrightarrow>
            map entregueEm (pedidos (snd (passo e s))) = map entregueEm (pedidos s))"
proof (cases e)
  case (PedidoAceitar k)
  with assms show ?thesis
    by (auto simp: pedido_aceitar_def map_atualizar nucleo_def split: option.splits)
next
  case (PedidoFinalizar agora k)
  with assms show ?thesis
    by (auto simp: pedido_finalizar_def map_atualizar nucleo_def split: option.splits)
next
  case (PedidoCancelar agora k)
  with assms show ?thesis
    by (auto simp: pedido_cancelar_def map_atualizar nucleo_def split: option.splits)
next
  case (PedidoEntregar agora k)
  with assms show ?thesis
    by (auto simp: pedido_entregar_def map_atualizar nucleo_def split: option.splits)
next
  case (TimerDispara h)
  with assms show ?thesis
    by (auto simp: disparar_def expirar_def map_atualizar nucleo_def split: option.splits)
next
  case (SistemaIniciar agora)
  with assms show ?thesis by simp
next
  case (PedidoCriar sock agora d)
  with assms show ?thesis by simp
next
  case (SistemaReset agora)
  with assms show ?thesis by simp
qed

theorem campos_fixos_witness:
  "acao_de (PedidoCancelar ''10:00:05'' 1) = Some Cancelar \<and>
   map nucleo (pedidos (snd (passo (PedidoCancelar ''10:00:05'' 1) cenario_pendente))) =
     [(1, ''Ana'', ''Pizza'', ''10:00:01'', ''sock1'')] \<and>
   map nucleo (pedidos cenario_pendente) = [(1, ''Ana'', ''Pizza'', ''10:00:01'', ''sock1'')] \<and>
   map status (pedidos (snd (passo (PedidoCancelar ''10:00:05'' 1) cenario_pendente))) = [Cancelado] \<and>
   map canceladoEm (pedidos (snd (passo (PedidoCancelar ''10:00:05'' 1) cenario_pendente))) =
     [Some ''10:00:05'']"
proof -
  have h: "acao_de (PedidoCancelar ''10:00:05'' 1) = Some Cancelar" by simp
  have a: "map nucleo (pedidos cenario_pendente) = [(1, ''Ana'', ''Pizza'', ''10:00:01'', ''sock1'')]"
    by code_simp
  have b: "map status (pedidos (snd (passo (PedidoCancelar ''10:00:05'' 1) cenario_pendente))) = [Cancelado]"
    by code_simp
  have c: "map canceladoEm (pedidos (snd (passo (PedidoCancelar ''10:00:05'' 1) cenario_pendente))) =
     [Some ''10:00:05'']" by code_simp
  show ?thesis using campos_fixos [OF h, of cenario_pendente] h a b c by simp
qed

end
